theory Spec2Isabelle
  imports Main "HOL-Library.Word"
begin

section \<open>Machine types of \<^verbatim>\<open>thread_pool.h\<close>\<close>

text \<open>
  The header mixes three integer types. \<^verbatim>\<open>uint32_t\<close> carries every thread count
  that a caller passes in, \<^verbatim>\<open>size_t\<close> is what the executor stores and what the
  queue capacity is computed in (64 bits: the executor library supports 64-bit
  platforms only), and \<^verbatim>\<open>int32_t\<close> / \<^verbatim>\<open>int\<close> is what \<^verbatim>\<open>size()\<close> returns
  and what the nested runtime exchanges. A signed value is a 32-bit word read with
  \<open>sint\<close> and compared with \<open>\<le>s\<close> and \<open><s\<close>; an unsigned one is read with \<open>uint\<close>.
\<close>

type_synonym uint32_t = "32 word"
type_synonym int32_t = "32 word"
type_synonym size_t = "64 word"

section \<open>Logging\<close>

text \<open>
  A log record is the macro that produced it, the text streamed into it and, for
  the informational records of the registry, the number streamed after the text.
\<close>

datatype log_record =
    LOG_KNOWHERE_ERROR string
  | LOG_KNOWHERE_INFO string int

section \<open>The executor\<close>

text \<open>
  Modelled from the spec: \<^verbatim>\<open>folly::CPUThreadPoolExecutor\<close> and its queue are an
  external collaborator (section 6: construct(capacity, thread_count,
  thread_factory), get/set thread_count, query thread_count). The record keeps
  what the constructor is handed: the thread count, the capacity of the blocking
  queue and the prefix given to the thread factory. Worker threads, and whatever
  they log when they start, are not part of the model.
\<close>

record CPUThreadPoolExecutor =
  numThreads :: size_t
  queue_capacity :: size_t
  threadFactory :: string

definition setNumThreads :: "size_t \<Rightarrow> CPUThreadPoolExecutor \<Rightarrow> CPUThreadPoolExecutor" where
  "setNumThreads n ex = ex\<lparr>numThreads := n\<rparr>"

section \<open>ThreadPool\<close>

text \<open>
  The member \<^verbatim>\<open>pool_\<close> is the field \<open>pool\<close>, and the static members
  \<^verbatim>\<open>build_pool_\<close> and \<^verbatim>\<open>search_pool_\<close> are \<open>build_pool\<close> and \<open>search_pool\<close>
  below: a name of the logic cannot end in an underscore. The log macros lose
  their last underscore for the same reason.
\<close>

record ThreadPool =
  pool :: CPUThreadPoolExecutor

definition kTaskQueueFactor :: size_t where
  "kTaskQueueFactor = 16"

text \<open>
  The constructor has an empty body: its member initialiser builds the executor
  from \<^verbatim>\<open>num_threads\<close>, a queue of \<^verbatim>\<open>num_threads * kTaskQueueFactor\<close> slots (the
  product is taken in \<^verbatim>\<open>size_t\<close>) and a thread factory for the prefix. There is no
  check of \<^verbatim>\<open>num_threads\<close> and no log statement.
\<close>

definition ThreadPool_ctor :: "uint32_t \<Rightarrow> string \<Rightarrow> ThreadPool" where
  "ThreadPool_ctor num_threads thread_name_prefix =
     \<lparr>pool = \<lparr>numThreads = ucast num_threads,
                queue_capacity = ucast num_threads * kTaskQueueFactor,
                threadFactory = thread_name_prefix\<rparr>\<rparr>"

text \<open>\<^verbatim>\<open>size()\<close> returns the executor's \<^verbatim>\<open>size_t\<close> count as an \<^verbatim>\<open>int32_t\<close>.\<close>

definition ThreadPool_size :: "ThreadPool \<Rightarrow> int32_t" where
  "ThreadPool_size p = ucast (numThreads (pool p))"

text \<open>\<^verbatim>\<open>SetNumThreads\<close> returns the pool after the call and the records it logged.\<close>

definition SetNumThreads :: "uint32_t \<Rightarrow> ThreadPool \<Rightarrow> ThreadPool \<times> log_record list" where
  "SetNumThreads num_threads p =
     (if num_threads = 0
      then (p, [LOG_KNOWHERE_ERROR ''set number of threads can not be 0''])
      else (p\<lparr>pool := setNumThreads (ucast num_threads) (pool p)\<rparr>, []))"

section \<open>Process state\<close>

text \<open>
  The static members and the objects they point to. \<open>heap\<close> holds every pool made
  by \<^verbatim>\<open>std::make_shared<ThreadPool>\<close>, in the order of construction; a
  \<^verbatim>\<open>shared_ptr\<close> is the index of its object, \<open>None\<close> is \<^verbatim>\<open>nullptr\<close>.
  \<open>nthreads_var\<close> is the nested runtime's thread budget (what
  \<^verbatim>\<open>omp_get_max_threads\<close> reads). \<open>omp_nonpositive\<close> stands for the runtime's
  implementation-defined answer to a request that is not positive.
\<close>

record world =
  heap :: "ThreadPool list"
  build_pool :: "nat option"
  search_pool :: "nat option"
  nthreads_var :: int32_t
  omp_nonpositive :: "int32_t \<Rightarrow> int32_t"
  log :: "log_record list"

definition LOG :: "log_record \<Rightarrow> world \<Rightarrow> world" where
  "LOG r w = w\<lparr>log := log w @ [r]\<rparr>"

text \<open>\<^verbatim>\<open>std::make_shared<ThreadPool>(num_threads, prefix)\<close>: construct, then allocate.\<close>

definition make_shared_ThreadPool :: "uint32_t \<Rightarrow> string \<Rightarrow> world \<Rightarrow> nat \<times> world" where
  "make_shared_ThreadPool num_threads thread_name_prefix w =
     (length (heap w), w\<lparr>heap := heap w @ [ThreadPool_ctor num_threads thread_name_prefix]\<rparr>)"

text \<open>
  The process at start: no pool, nothing logged, a nested budget of 8, and a
  nested runtime that answers a request that is not positive with a budget of 1.
\<close>

definition world0 :: world where
  "world0 = \<lparr>heap = [], build_pool = None, search_pool = None,
             nthreads_var = 8, omp_nonpositive = (\<lambda>_. 1), log = []\<rparr>"

text \<open>
  A non-null \<^verbatim>\<open>shared_ptr\<close> always points to a live object. In the model this is
  the condition that both static pointers index the heap; every operation below
  keeps it.
\<close>

definition wf_world :: "world \<Rightarrow> bool" where
  "wf_world w =
     ((case build_pool w of None \<Rightarrow> True | Some a \<Rightarrow> a < length (heap w)) \<and>
      (case search_pool w of None \<Rightarrow> True | Some a \<Rightarrow> a < length (heap w)))"

section \<open>Global pool registry\<close>

text \<open>
  The registry functions run on one thread of control here: the lock is taken and
  released inside a call and has no effect on a sequential run. Both tests of the
  double-checked pattern are kept. \<^verbatim>\<open>num_threads <= 0\<close> compares an unsigned value.
\<close>

definition InitGlobalBuildThreadPool :: "uint32_t \<Rightarrow> world \<Rightarrow> world" where
  "InitGlobalBuildThreadPool num_threads w =
     (if num_threads \<le> 0
      then LOG (LOG_KNOWHERE_ERROR ''num_threads should be bigger than 0'') w
      else case build_pool w of
        None \<Rightarrow>
          (if build_pool w = None then
             (let (a, w1) = make_shared_ThreadPool num_threads ''knowhere_build'' w;
                  w2 = w1\<lparr>build_pool := Some a\<rparr>
              in LOG (LOG_KNOWHERE_INFO ''Init global build thread pool with size ''
                        (uint num_threads)) w2)
           else w)
      | Some a \<Rightarrow>
          LOG (LOG_KNOWHERE_INFO
                 ''Global build thread pool size has already been initialized to ''
                 (sint (ThreadPool_size (heap w ! a)))) w)"

definition InitGlobalSearchThreadPool :: "uint32_t \<Rightarrow> world \<Rightarrow> world" where
  "InitGlobalSearchThreadPool num_threads w =
     (if num_threads \<le> 0
      then LOG (LOG_KNOWHERE_ERROR ''num_threads should be bigger than 0'') w
      else case search_pool w of
        None \<Rightarrow>
          (if search_pool w = None then
             (let (a, w1) = make_shared_ThreadPool num_threads ''knowhere_search'' w;
                  w2 = w1\<lparr>search_pool := Some a\<rparr>
              in LOG (LOG_KNOWHERE_INFO ''Init global search thread pool with size ''
                        (uint num_threads)) w2)
           else w)
      | Some a \<Rightarrow>
          LOG (LOG_KNOWHERE_INFO
                 ''Global search thread pool size has already been initialized to ''
                 (sint (ThreadPool_size (heap w ! a)))) w)"

text \<open>
  Resizing goes through the pointer: the object at the address is updated where
  it is, and the size logged afterwards is read from the updated object.
\<close>

definition SetGlobalBuildThreadPoolSize :: "uint32_t \<Rightarrow> world \<Rightarrow> world" where
  "SetGlobalBuildThreadPoolSize num_threads w =
     (case build_pool w of
        None \<Rightarrow> InitGlobalBuildThreadPool num_threads w
      | Some a \<Rightarrow>
          (let (p, msgs) = SetNumThreads num_threads (heap w ! a);
               w1 = w\<lparr>heap := (heap w)[a := p], log := log w @ msgs\<rparr>
           in LOG (LOG_KNOWHERE_INFO ''Global build thread pool size has already been set to ''
                     (sint (ThreadPool_size (heap w1 ! a)))) w1))"

definition SetGlobalSearchThreadPoolSize :: "uint32_t \<Rightarrow> world \<Rightarrow> world" where
  "SetGlobalSearchThreadPoolSize num_threads w =
     (case search_pool w of
        None \<Rightarrow> InitGlobalSearchThreadPool num_threads w
      | Some a \<Rightarrow>
          (let (p, msgs) = SetNumThreads num_threads (heap w ! a);
               w1 = w\<lparr>heap := (heap w)[a := p], log := log w @ msgs\<rparr>
           in LOG (LOG_KNOWHERE_INFO ''Global search thread pool size has already been set to ''
                     (sint (ThreadPool_size (heap w1 ! a)))) w1))"

text \<open>
  The getters take what \<^verbatim>\<open>std::thread::hardware_concurrency()\<close> returns at the call
  (an unsigned value, 0 when the platform cannot tell) and return the static
  pointer as it is after the attempt to initialise.
\<close>

definition GetGlobalBuildThreadPool :: "uint32_t \<Rightarrow> world \<Rightarrow> nat option \<times> world" where
  "GetGlobalBuildThreadPool hardware_concurrency w =
     (let w1 = (if build_pool w = None
                then InitGlobalBuildThreadPool hardware_concurrency w else w)
      in (build_pool w1, w1))"

definition GetGlobalSearchThreadPool :: "uint32_t \<Rightarrow> world \<Rightarrow> nat option \<times> world" where
  "GetGlobalSearchThreadPool hardware_concurrency w =
     (let w1 = (if search_pool w = None
                then InitGlobalSearchThreadPool hardware_concurrency w else w)
      in (search_pool w1, w1))"

text \<open>
  The registry's operations as data, to speak of every sequence of calls. A
  \<open>Get\<close> carries the hardware concurrency its call detects.
\<close>

datatype workload = Build | Search

datatype registry_op =
    Init workload uint32_t
  | SetSize workload uint32_t
  | Get workload uint32_t

fun registry_step :: "registry_op \<Rightarrow> world \<Rightarrow> world" where
  "registry_step (Init Build n) w = InitGlobalBuildThreadPool n w"
| "registry_step (Init Search n) w = InitGlobalSearchThreadPool n w"
| "registry_step (SetSize Build n) w = SetGlobalBuildThreadPoolSize n w"
| "registry_step (SetSize Search n) w = SetGlobalSearchThreadPoolSize n w"
| "registry_step (Get Build hc) w = snd (GetGlobalBuildThreadPool hc w)"
| "registry_step (Get Search hc) w = snd (GetGlobalSearchThreadPool hc w)"

definition registry_run :: "registry_op list \<Rightarrow> world \<Rightarrow> world" where
  "registry_run ops w = fold registry_step ops w"

fun global_pool :: "workload \<Rightarrow> world \<Rightarrow> nat option" where
  "global_pool Build w = build_pool w"
| "global_pool Search w = search_pool w"

text \<open>
  Two observations of the state, to count constructions per workload class: the
  thread name prefix of every pool on the heap, in the order of construction (a
  resize never changes a prefix), and the prefix the registry gives to the pool
  of each class.
\<close>

definition pool_names :: "world \<Rightarrow> string list" where
  "pool_names w = map (\<lambda>p. threadFactory (pool p)) (heap w)"

definition class_name :: "workload \<Rightarrow> string" where
  "class_name c = (case c of Build \<Rightarrow> ''knowhere_build'' | Search \<Rightarrow> ''knowhere_search'')"

section \<open>ScopedOmpSetter\<close>

text \<open>
  Modelled from the spec: the nested runtime of \<^verbatim>\<open>omp.h\<close> is an external
  collaborator (section 6: get_max_threads() / set_max_threads(n)). A positive
  request becomes the budget. OpenMP leaves a request that is not positive to the
  implementation, which is the field \<open>omp_nonpositive\<close> of the state.
\<close>

definition omp_get_max_threads :: "world \<Rightarrow> int32_t" where
  "omp_get_max_threads w = nthreads_var w"

definition omp_set_num_threads :: "int32_t \<Rightarrow> world \<Rightarrow> world" where
  "omp_set_num_threads n w =
     w\<lparr>nthreads_var := (if 0 <s n then n else omp_nonpositive w n)\<rparr>"

record ScopedOmpSetter =
  omp_before :: int32_t

definition ScopedOmpSetter_ctor :: "int32_t \<Rightarrow> world \<Rightarrow> ScopedOmpSetter \<times> world" where
  "ScopedOmpSetter_ctor num_threads w =
     (let before = (case build_pool w of
                      None \<Rightarrow> omp_get_max_threads w
                    | Some a \<Rightarrow> ThreadPool_size (heap w ! a))
      in (\<lparr>omp_before = before\<rparr>,
          omp_set_num_threads (if num_threads \<le>s 0 then before else num_threads) w))"

definition ScopedOmpSetter_dtor :: "ScopedOmpSetter \<Rightarrow> world \<Rightarrow> world" where
  "ScopedOmpSetter_dtor g w = omp_set_num_threads (omp_before g) w"

section \<open>WaitAllSuccess\<close>

text \<open>
  Modelled from the spec: the enumeration \<^verbatim>\<open>knowhere::Status\<close> is declared in
  \<^verbatim>\<open>knowhere/expected.h\<close>. The function only tells \<^verbatim>\<open>Status::success\<close> from the
  other enumerators, which are kept apart by a number.
\<close>

datatype Status = success | failure nat

text \<open>
  \<^verbatim>\<open>collectAll(...).get()\<close> yields one \<^verbatim>\<open>folly::Try\<close> per future once all of them
  have completed: a value or the exception the task raised. The call returns
  \<open>Inr\<close> of a status, or \<open>Inl\<close> of the exception that \<^verbatim>\<open>throwUnlessValue\<close> throws.
  The template has two instances, \<^verbatim>\<open>T = Status\<close> and \<^verbatim>\<open>T = folly::Unit\<close>; the
  test of the value is compiled into the first only.
\<close>

datatype ('a, 'e) Try = Value 'a | Exception 'e

fun WaitAllSuccess_Status :: "(Status, 'e) Try list \<Rightarrow> 'e + Status" where
  "WaitAllSuccess_Status [] = Inr success"
| "WaitAllSuccess_Status (Exception e # allFuts) = Inl e"
| "WaitAllSuccess_Status (Value v # allFuts) =
     (if v \<noteq> success then Inr v else WaitAllSuccess_Status allFuts)"

fun WaitAllSuccess_Unit :: "(unit, 'e) Try list \<Rightarrow> 'e + Status" where
  "WaitAllSuccess_Unit [] = Inr success"
| "WaitAllSuccess_Unit (Exception e # allFuts) = Inl e"
| "WaitAllSuccess_Unit (Value v # allFuts) = WaitAllSuccess_Unit allFuts"

section \<open>ThreadPool: construction, size and resize\<close>

text \<open>Reading 32-bit and 64-bit words: the conversions the header performs.\<close>

lemma sint32_small:
  fixes n :: "32 word"
  assumes "uint n < 2147483648"
  shows "sint n = uint n"
proof -
  have "signed_take_bit 31 (uint n) = uint n"
  proof (rule signed_take_bit_int_eq_self)
    have "(0::int) \<le> uint n" by simp
    moreover have "- (2 ^ 31) \<le> (0::int)" by simp
    ultimately show "- (2 ^ 31) \<le> uint n" by (rule order_trans [rotated])
    show "uint n < 2 ^ 31" using assms by simp
  qed
  then show ?thesis by (simp add: sint_uint)
qed

lemma sint32_large:
  fixes n :: "32 word"
  assumes "2147483648 \<le> uint n"
  shows "sint n = uint n - 4294967296"
proof -
  have lt: "uint n < 4294967296"
    using uint_lt2p [of n] by simp
  have "uint n + 2147483648 = (uint n - 2147483648) + 4294967296"
    by simp
  then have "(uint n + 2147483648) mod 4294967296 = (uint n - 2147483648) mod 4294967296"
    by (simp only: mod_add_self2)
  also have "\<dots> = uint n - 2147483648"
    using assms lt by (intro mod_pos_pos_trivial) simp_all
  finally have "take_bit 32 (uint n + 2147483648) = uint n - 2147483648"
    by (simp add: take_bit_eq_mod)
  then show ?thesis
    by (simp add: sint_uint signed_take_bit_eq_take_bit_shift)
qed

lemma uint_ucast_32_64:
  fixes n :: "32 word"
  shows "uint (ucast n :: 64 word) = uint n"
  by (simp add: uint_up_ucast is_up)

lemma ucast_64_32_id:
  fixes n :: "32 word"
  shows "(ucast (ucast n :: 64 word) :: 32 word) = n"
  by (simp add: ucast_up_ucast_id is_up)

lemma uint_times_kTaskQueueFactor:
  fixes n :: "32 word"
  shows "uint ((ucast n :: 64 word) * kTaskQueueFactor) = uint n * 16"
proof -
  have "uint n < 4294967296"
    using uint_lt2p [of n] by simp
  then have "uint n * 16 mod 18446744073709551616 = uint n * 16"
    by (intro mod_pos_pos_trivial) simp_all
  then show ?thesis
    by (simp add: kTaskQueueFactor_def uint_word_ariths uint_ucast_32_64)
qed

text \<open>
  C7, as the code has it. For every \<^verbatim>\<open>uint32_t\<close> count \<open>n\<close> and every prefix, the
  constructed pool is configured with \<open>n\<close> threads, its queue has capacity exactly
  \<open>n \<times> 16\<close> (the product cannot wrap in \<^verbatim>\<open>size_t\<close>) and carries the prefix. \<^verbatim>\<open>size()\<close>
  returns \<open>n\<close> for \<open>n\<close> up to \<open>2\<^sup>3\<^sup>1 - 1\<close>; from \<open>2\<^sup>3\<^sup>1\<close> on, its \<^verbatim>\<open>int32_t\<close> result is
  \<open>n - 2\<^sup>3\<^sup>2\<close>, a negative number.
\<close>

theorem ThreadPool_ctor_size_capacity:
  "uint (numThreads (pool (ThreadPool_ctor n pfx))) = uint n
   \<and> uint (queue_capacity (pool (ThreadPool_ctor n pfx))) = uint n * 16
   \<and> threadFactory (pool (ThreadPool_ctor n pfx)) = pfx
   \<and> (uint n < 2147483648 \<longrightarrow> sint (ThreadPool_size (ThreadPool_ctor n pfx)) = uint n)
   \<and> (2147483648 \<le> uint n \<longrightarrow>
        sint (ThreadPool_size (ThreadPool_ctor n pfx)) = uint n - 4294967296)"
proof -
  have sz: "ThreadPool_size (ThreadPool_ctor n pfx) = n"
    by (simp add: ThreadPool_size_def ThreadPool_ctor_def ucast_64_32_id)
  show ?thesis
    by (simp add: sz sint32_small sint32_large)
       (simp add: ThreadPool_ctor_def uint_ucast_32_64 uint_times_kTaskQueueFactor)
qed

text \<open>The theorem at 12 threads, and at the count that \<^verbatim>\<open>-1\<close> converts to.\<close>

theorem ThreadPool_ctor_size_capacity_witness:
  "uint (numThreads (pool (ThreadPool_ctor 12 ''knowhere_build''))) = 12
   \<and> uint (queue_capacity (pool (ThreadPool_ctor 12 ''knowhere_build''))) = 192
   \<and> sint (ThreadPool_size (ThreadPool_ctor 12 ''knowhere_build'')) = 12
   \<and> sint (ThreadPool_size (ThreadPool_ctor 4294967295 ''knowhere_build'')) = - 1"
  using ThreadPool_ctor_size_capacity [of 12 "''knowhere_build''"]
    ThreadPool_ctor_size_capacity [of 4294967295 "''knowhere_build''"]
  by simp

text \<open>
  C7 as stated fails: \<open>n = 2\<^sup>3\<^sup>1\<close> is a positive thread count, and \<^verbatim>\<open>size()\<close> of
  the pool constructed with it is \<open>- 2\<^sup>3\<^sup>1\<close>.
\<close>

theorem ThreadPool_size_huge_counterexample:
  "(0 :: uint32_t) < 2147483648
   \<and> sint (ThreadPool_size (ThreadPool_ctor 2147483648 ''knowhere_build'')) = - 2147483648
   \<and> sint (ThreadPool_size (ThreadPool_ctor 2147483648 ''knowhere_build''))
       \<noteq> uint (2147483648 :: uint32_t)"
  by (simp add: ThreadPool_size_def ThreadPool_ctor_def)

text \<open>
  C8. For every pool state, \<^verbatim>\<open>SetNumThreads(0)\<close> logs the error record, returns the
  pool as it was (no field changes) and so leaves \<^verbatim>\<open>size()\<close> unchanged.
\<close>

theorem SetNumThreads_zero:
  "SetNumThreads 0 p = (p, [LOG_KNOWHERE_ERROR ''set number of threads can not be 0''])
   \<and> ThreadPool_size (fst (SetNumThreads 0 p)) = ThreadPool_size p"
  by (simp add: SetNumThreads_def)

section \<open>WaitAllSuccess: results\<close>

lemma WaitAllSuccess_Status_prefix:
  "\<forall>r\<in>set pre. r = Value success \<Longrightarrow>
     WaitAllSuccess_Status (pre @ rest) = WaitAllSuccess_Status rest"
  by (induction pre) auto

lemma WaitAllSuccess_Unit_prefix:
  "\<forall>r\<in>set pre. r = Value () \<Longrightarrow>
     WaitAllSuccess_Unit (pre @ rest) = WaitAllSuccess_Unit rest"
  by (induction pre) auto

lemma WaitAllSuccess_Status_Inl:
  "WaitAllSuccess_Status rs = Inl e \<Longrightarrow>
     \<exists>pre post. rs = pre @ Exception e # post \<and> (\<forall>r\<in>set pre. r = Value success)"
proof (induction rs rule: WaitAllSuccess_Status.induct)
  case 1
  then show ?case by simp
next
  case (2 e' allFuts)
  then have "e' = e" by simp
  then have "Exception e' # allFuts = [] @ Exception e # allFuts \<and> (\<forall>r\<in>set []. r = Value success)"
    by simp
  then show ?case by blast
next
  case (3 v allFuts)
  show ?case
  proof (cases "v = success")
    case True
    with 3 obtain pre post where
      "allFuts = pre @ Exception e # post" "\<forall>r\<in>set pre. r = Value success"
      by auto
    with True have "Value v # allFuts = (Value success # pre) @ Exception e # post
        \<and> (\<forall>r\<in>set (Value success # pre). r = Value success)"
      by simp
    then show ?thesis by blast
  next
    case False
    with 3 show ?thesis by simp
  qed
qed

lemma WaitAllSuccess_Unit_Inl:
  "WaitAllSuccess_Unit rs = Inl e \<Longrightarrow>
     \<exists>pre post. rs = pre @ Exception e # post \<and> (\<forall>r\<in>set pre. r = Value ())"
proof (induction rs rule: WaitAllSuccess_Unit.induct)
  case 1
  then show ?case by simp
next
  case (2 e' allFuts)
  then have "Exception e' # allFuts = [] @ Exception e # allFuts \<and> (\<forall>r\<in>set []. r = Value ())"
    by simp
  then show ?case by blast
next
  case (3 v allFuts)
  then obtain pre post where
    "allFuts = pre @ Exception e # post" "\<forall>r\<in>set pre. r = Value ()"
    by auto
  then have "Value v # allFuts = (Value () # pre) @ Exception e # post
      \<and> (\<forall>r\<in>set (Value () # pre). r = Value ())"
    by simp
  then show ?case by blast
qed

lemma WaitAllSuccess_Status_find:
  "WaitAllSuccess_Status (map Value ss) =
     Inr (case find (\<lambda>s. s \<noteq> success) ss of None \<Rightarrow> success | Some s \<Rightarrow> s)"
  by (induction ss) auto

lemma WaitAllSuccess_Status_first:
  "WaitAllSuccess_Status rs =
     (case find (\<lambda>r. r \<noteq> Value success) rs of
        None \<Rightarrow> Inr success
      | Some (Value v) \<Rightarrow> Inr v
      | Some (Exception e) \<Rightarrow> Inl e)"
  by (induction rs rule: WaitAllSuccess_Status.induct) auto

lemma WaitAllSuccess_Unit_first:
  "WaitAllSuccess_Unit us =
     (case find (\<lambda>r. r \<noteq> Value ()) us of
        None \<Rightarrow> Inr success
      | Some (Value v) \<Rightarrow> Inr success
      | Some (Exception e) \<Rightarrow> Inl e)"
  by (induction us rule: WaitAllSuccess_Unit.induct) auto

text \<open>
  C1, as the code has it. The loop stops at the first handle, in sequence order,
  that is not a successful value, and that handle alone decides the call. So the
  call raises the error \<open>e\<close> exactly when a handle carries \<open>e\<close> and every handle
  before it completed with \<^verbatim>\<open>Status::success\<close> (with the unit payload: with a
  value); the handles after it have no influence. A status \<open>s\<close> other than success
  whose predecessors all succeeded is returned whatever follows it, a raised
  error included, and that error is not raised. The last two conjuncts give the
  result of every batch: it is read off the first handle that is not a
  successful value.
\<close>

theorem WaitAllSuccess_first_failure_indicator:
  "(WaitAllSuccess_Status rs = Inl e \<longleftrightarrow>
      (\<exists>pre post. rs = pre @ Exception e # post \<and> (\<forall>r\<in>set pre. r = Value success)))
   \<and> (WaitAllSuccess_Unit us = Inl e \<longleftrightarrow>
      (\<exists>pre post. us = pre @ Exception e # post \<and> (\<forall>r\<in>set pre. r = Value ())))
   \<and> ((\<forall>r\<in>set pre. r = Value success) \<and> s \<noteq> success \<longrightarrow>
        WaitAllSuccess_Status (pre @ Value s # post) = Inr s)
   \<and> ((\<forall>r\<in>set pre. r = Value success) \<longrightarrow>
        WaitAllSuccess_Status (pre @ Exception e # post) = Inl e)
   \<and> ((\<forall>r\<in>set upre. r = Value ()) \<longrightarrow>
        WaitAllSuccess_Unit (upre @ Exception e # upost) = Inl e)
   \<and> WaitAllSuccess_Status rs =
        (case find (\<lambda>r. r \<noteq> Value success) rs of
           None \<Rightarrow> Inr success
         | Some (Value v) \<Rightarrow> Inr v
         | Some (Exception x) \<Rightarrow> Inl x)
   \<and> WaitAllSuccess_Unit us =
        (case find (\<lambda>r. r \<noteq> Value ()) us of
           None \<Rightarrow> Inr success
         | Some (Value v) \<Rightarrow> Inr success
         | Some (Exception x) \<Rightarrow> Inl x)"
proof (intro conjI iffI impI)
  assume "WaitAllSuccess_Status rs = Inl e"
  then show "\<exists>pre post. rs = pre @ Exception e # post \<and> (\<forall>r\<in>set pre. r = Value success)"
    by (rule WaitAllSuccess_Status_Inl)
next
  assume "\<exists>pre post. rs = pre @ Exception e # post \<and> (\<forall>r\<in>set pre. r = Value success)"
  then show "WaitAllSuccess_Status rs = Inl e"
    by (auto simp: WaitAllSuccess_Status_prefix)
next
  assume "WaitAllSuccess_Unit us = Inl e"
  then show "\<exists>pre post. us = pre @ Exception e # post \<and> (\<forall>r\<in>set pre. r = Value ())"
    by (rule WaitAllSuccess_Unit_Inl)
next
  assume "\<exists>pre post. us = pre @ Exception e # post \<and> (\<forall>r\<in>set pre. r = Value ())"
  then show "WaitAllSuccess_Unit us = Inl e"
    by (auto simp: WaitAllSuccess_Unit_prefix)
next
  assume "(\<forall>r\<in>set pre. r = Value success) \<and> s \<noteq> success"
  then show "WaitAllSuccess_Status (pre @ Value s # post) = Inr s"
    by (simp add: WaitAllSuccess_Status_prefix)
next
  assume "\<forall>r\<in>set pre. r = Value success"
  then show "WaitAllSuccess_Status (pre @ Exception e # post) = Inl e"
    by (simp add: WaitAllSuccess_Status_prefix)
next
  assume "\<forall>r\<in>set upre. r = Value ()"
  then show "WaitAllSuccess_Unit (upre @ Exception e # upost) = Inl e"
    by (simp add: WaitAllSuccess_Unit_prefix)
next
  show "WaitAllSuccess_Status rs =
        (case find (\<lambda>r. r \<noteq> Value success) rs of
           None \<Rightarrow> Inr success
         | Some (Value v) \<Rightarrow> Inr v
         | Some (Exception x) \<Rightarrow> Inl x)"
    by (rule WaitAllSuccess_Status_first)
next
  show "WaitAllSuccess_Unit us =
        (case find (\<lambda>r. r \<noteq> Value ()) us of
           None \<Rightarrow> Inr success
         | Some (Value v) \<Rightarrow> Inr success
         | Some (Exception x) \<Rightarrow> Inl x)"
    by (rule WaitAllSuccess_Unit_first)
qed

text \<open>
  The theorem at two batches whose second handle carries the error, and at a
  batch where a status other than success stands before the error.
\<close>

theorem WaitAllSuccess_first_failure_indicator_witness:
  "WaitAllSuccess_Status [Value success, Exception ''bad_alloc'', Value (failure 2)] = Inl ''bad_alloc''
   \<and> WaitAllSuccess_Unit [Value (), Exception ''bad_alloc'', Exception ''logic_error''] = Inl ''bad_alloc''
   \<and> WaitAllSuccess_Status ([Value success] @ Value (failure 1) # [Exception ''bad_alloc''])
       = Inr (failure 1)"
proof -
  note t = WaitAllSuccess_first_failure_indicator
    [of "[Value success, Exception ''bad_alloc'', Value (failure 2)]" "''bad_alloc''"
        "[Value (), Exception ''bad_alloc'', Exception ''logic_error'']"
        "[Value success]" "failure 1" "[Exception ''bad_alloc'']"]
  have s: "\<exists>pre post. [Value success, Exception ''bad_alloc'', Value (failure 2)]
             = pre @ Exception ''bad_alloc'' # post \<and> (\<forall>r\<in>set pre. r = Value success)"
    by (rule exI [of _ "[Value success]"], rule exI [of _ "[Value (failure 2)]"]) simp
  have u: "\<exists>pre post. [Value (), Exception ''bad_alloc'', Exception ''logic_error'']
             = pre @ Exception ''bad_alloc'' # post \<and> (\<forall>r\<in>set pre. r = Value ())"
    by (rule exI [of _ "[Value ()]"], rule exI [of _ "[Exception ''logic_error'']"]) simp
  have p: "(\<forall>r\<in>set [Value success :: (Status, string) Try]. r = Value success)
             \<and> failure 1 \<noteq> success"
    by simp
  from t [THEN conjunct1] s
  have 1: "WaitAllSuccess_Status [Value success, Exception ''bad_alloc'', Value (failure 2)]
             = Inl ''bad_alloc''"
    by (rule iffD2)
  from t [THEN conjunct2, THEN conjunct1] u
  have 2: "WaitAllSuccess_Unit [Value (), Exception ''bad_alloc'', Exception ''logic_error'']
             = Inl ''bad_alloc''"
    by (rule iffD2)
  from t [THEN conjunct2, THEN conjunct2, THEN conjunct1] p
  have 3: "WaitAllSuccess_Status ([Value success] @ Value (failure 1) # [Exception ''bad_alloc''])
       = Inr (failure 1)"
    by (rule mp)
  from 1 2 3 show ?thesis by (intro conjI)
qed

text \<open>
  C1 as stated fails: the first handle reports a status that is not success, the
  second carries a raised error, and the call returns the status.
\<close>

theorem WaitAllSuccess_error_after_status_counterexample:
  "WaitAllSuccess_Status [Value (failure 1), Exception ''bad_alloc''] = Inr (failure 1)
   \<and> WaitAllSuccess_Status [Value (failure 1), Exception ''bad_alloc''] \<noteq> Inl ''bad_alloc''"
  by simp

text \<open>
  C4. On \<open>N\<close> handles that all carry a status and no raised error, the call returns
  the first status in sequence order that is not success, and success when there
  is none: for any \<open>N\<close>, the empty batch included. In particular \<open>N\<close> successes
  give success, and a status \<open>s\<close> other than success at index \<open>k\<close>, after \<open>k\<close>
  successes, is returned whatever follows it.
\<close>

theorem WaitAllSuccess_Status_scan:
  "WaitAllSuccess_Status (map Value ss) =
     Inr (case find (\<lambda>s. s \<noteq> success) ss of None \<Rightarrow> success | Some s \<Rightarrow> s)
   \<and> WaitAllSuccess_Status (map Value (replicate N success)) = Inr success
   \<and> (s \<noteq> success \<longrightarrow>
        WaitAllSuccess_Status (map Value (replicate k success @ s # rest)) = Inr s)"
proof (intro conjI impI)
  show "WaitAllSuccess_Status (map Value ss) =
     Inr (case find (\<lambda>s. s \<noteq> success) ss of None \<Rightarrow> success | Some s \<Rightarrow> s)"
    by (rule WaitAllSuccess_Status_find)
next
  have "\<forall>r\<in>set (map Value (replicate N success)). r = Value success" by simp
  from WaitAllSuccess_Status_prefix [OF this, of "[]"]
  show "WaitAllSuccess_Status (map Value (replicate N success)) = Inr success" by simp
next
  assume ne: "s \<noteq> success"
  have "\<forall>r\<in>set (map Value (replicate k success)). r = Value success" by simp
  from WaitAllSuccess_Status_prefix [OF this, of "Value s # map Value rest"] ne
  show "WaitAllSuccess_Status (map Value (replicate k success @ s # rest)) = Inr s" by simp
qed

text \<open>The theorem at a batch of four, at two successes, and at index 2 of five.\<close>

theorem WaitAllSuccess_Status_scan_witness:
  "WaitAllSuccess_Status (map Value [success, failure 3, success, failure 4]) = Inr (failure 3)
   \<and> WaitAllSuccess_Status (map Value (replicate 2 success)) = Inr success
   \<and> WaitAllSuccess_Status (map Value (replicate 2 success @ failure 5 # [failure 6, success]))
       = Inr (failure 5)"
proof -
  have ne: "failure 5 \<noteq> success" by simp
  from WaitAllSuccess_Status_scan
    [of "[success, failure 3, success, failure 4]" 2 "failure 5" 2 "[failure 6, success]"] ne
  show ?thesis by simp
qed

section \<open>Global pool registry: results\<close>

text \<open>Each registry function, case by case, as an equation on the state.\<close>

lemma InitGlobalBuildThreadPool_zero:
  "InitGlobalBuildThreadPool 0 w =
     LOG (LOG_KNOWHERE_ERROR ''num_threads should be bigger than 0'') w"
  by (simp add: InitGlobalBuildThreadPool_def)

lemma InitGlobalSearchThreadPool_zero:
  "InitGlobalSearchThreadPool 0 w =
     LOG (LOG_KNOWHERE_ERROR ''num_threads should be bigger than 0'') w"
  by (simp add: InitGlobalSearchThreadPool_def)

lemma InitGlobalBuildThreadPool_unset:
  assumes "n \<noteq> 0" and "build_pool w = None"
  shows "InitGlobalBuildThreadPool n w =
     w\<lparr>heap := heap w @ [ThreadPool_ctor n ''knowhere_build''],
       build_pool := Some (length (heap w)),
       log := log w @ [LOG_KNOWHERE_INFO ''Init global build thread pool with size '' (uint n)]\<rparr>"
  using assms
  by (simp add: InitGlobalBuildThreadPool_def make_shared_ThreadPool_def LOG_def)

lemma InitGlobalSearchThreadPool_unset:
  assumes "n \<noteq> 0" and "search_pool w = None"
  shows "InitGlobalSearchThreadPool n w =
     w\<lparr>heap := heap w @ [ThreadPool_ctor n ''knowhere_search''],
       search_pool := Some (length (heap w)),
       log := log w @ [LOG_KNOWHERE_INFO ''Init global search thread pool with size '' (uint n)]\<rparr>"
  using assms
  by (simp add: InitGlobalSearchThreadPool_def make_shared_ThreadPool_def LOG_def)

lemma InitGlobalBuildThreadPool_set:
  assumes "n \<noteq> 0" and "build_pool w = Some a"
  shows "InitGlobalBuildThreadPool n w =
     LOG (LOG_KNOWHERE_INFO ''Global build thread pool size has already been initialized to ''
            (sint (ThreadPool_size (heap w ! a)))) w"
  using assms by (simp add: InitGlobalBuildThreadPool_def)

lemma InitGlobalSearchThreadPool_set:
  assumes "n \<noteq> 0" and "search_pool w = Some a"
  shows "InitGlobalSearchThreadPool n w =
     LOG (LOG_KNOWHERE_INFO ''Global search thread pool size has already been initialized to ''
            (sint (ThreadPool_size (heap w ! a)))) w"
  using assms by (simp add: InitGlobalSearchThreadPool_def)

lemma SetGlobalBuildThreadPoolSize_set:
  assumes "build_pool w = Some a"
  shows "SetGlobalBuildThreadPoolSize n w =
     w\<lparr>heap := (heap w)[a := fst (SetNumThreads n (heap w ! a))],
       log := log w @ snd (SetNumThreads n (heap w ! a)) @
         [LOG_KNOWHERE_INFO ''Global build thread pool size has already been set to ''
            (sint (ThreadPool_size ((heap w)[a := fst (SetNumThreads n (heap w ! a))] ! a)))]\<rparr>"
  using assms by (simp add: SetGlobalBuildThreadPoolSize_def LOG_def split: prod.split)

lemma SetGlobalSearchThreadPoolSize_set:
  assumes "search_pool w = Some a"
  shows "SetGlobalSearchThreadPoolSize n w =
     w\<lparr>heap := (heap w)[a := fst (SetNumThreads n (heap w ! a))],
       log := log w @ snd (SetNumThreads n (heap w ! a)) @
         [LOG_KNOWHERE_INFO ''Global search thread pool size has already been set to ''
            (sint (ThreadPool_size ((heap w)[a := fst (SetNumThreads n (heap w ! a))] ! a)))]\<rparr>"
  using assms by (simp add: SetGlobalSearchThreadPoolSize_def LOG_def split: prod.split)

lemma SetNumThreads_threadFactory:
  "threadFactory (pool (fst (SetNumThreads n p))) = threadFactory (pool p)"
  by (simp add: SetNumThreads_def setNumThreads_def)

lemma SetGlobalBuildThreadPoolSize_unset:
  "build_pool w = None \<Longrightarrow>
     SetGlobalBuildThreadPoolSize n w = InitGlobalBuildThreadPool n w"
  by (simp add: SetGlobalBuildThreadPoolSize_def)

lemma SetGlobalSearchThreadPoolSize_unset:
  "search_pool w = None \<Longrightarrow>
     SetGlobalSearchThreadPoolSize n w = InitGlobalSearchThreadPool n w"
  by (simp add: SetGlobalSearchThreadPoolSize_def)

lemma GetGlobalBuildThreadPool_unset:
  "build_pool w = None \<Longrightarrow>
     GetGlobalBuildThreadPool hc w =
       (build_pool (InitGlobalBuildThreadPool hc w), InitGlobalBuildThreadPool hc w)"
  by (simp add: GetGlobalBuildThreadPool_def Let_def)

lemma GetGlobalSearchThreadPool_unset:
  "search_pool w = None \<Longrightarrow>
     GetGlobalSearchThreadPool hc w =
       (search_pool (InitGlobalSearchThreadPool hc w), InitGlobalSearchThreadPool hc w)"
  by (simp add: GetGlobalSearchThreadPool_def Let_def)

lemma GetGlobalBuildThreadPool_set:
  "build_pool w = Some a \<Longrightarrow> GetGlobalBuildThreadPool hc w = (Some a, w)"
  by (simp add: GetGlobalBuildThreadPool_def Let_def)

lemma GetGlobalSearchThreadPool_set:
  "search_pool w = Some a \<Longrightarrow> GetGlobalSearchThreadPool hc w = (Some a, w)"
  by (simp add: GetGlobalSearchThreadPool_def Let_def)

lemma names_list_update:
  assumes "f p = f (xs ! a)"
  shows "map f (xs[a := p]) = map f xs"
proof (cases "a < length xs")
  case True
  have "map f (xs[a := p]) = (map f xs)[a := f p]" by (rule map_update)
  also have "\<dots> = (map f xs)[a := map f xs ! a]" using assms True by simp
  also have "\<dots> = map f xs" by (rule list_update_id)
  finally show ?thesis .
next
  case False
  then show ?thesis by (simp add: list_update_beyond)
qed

lemmas registry_eqs =
  InitGlobalBuildThreadPool_zero InitGlobalSearchThreadPool_zero
  InitGlobalBuildThreadPool_unset InitGlobalSearchThreadPool_unset
  InitGlobalBuildThreadPool_set InitGlobalSearchThreadPool_set
  SetGlobalBuildThreadPoolSize_unset SetGlobalSearchThreadPoolSize_unset
  SetGlobalBuildThreadPoolSize_set SetGlobalSearchThreadPoolSize_set
  GetGlobalBuildThreadPool_unset GetGlobalSearchThreadPool_unset
  GetGlobalBuildThreadPool_set GetGlobalSearchThreadPool_set

lemma InitGlobalBuildThreadPool_pointers:
  "build_pool w = Some a \<Longrightarrow> build_pool (InitGlobalBuildThreadPool n w) = Some a"
  "search_pool (InitGlobalBuildThreadPool n w) = search_pool w"
  "build_pool w = None \<Longrightarrow> n \<noteq> 0 \<Longrightarrow>
     build_pool (InitGlobalBuildThreadPool n w) = Some (length (heap w))"
  "build_pool w = None \<Longrightarrow> n = 0 \<Longrightarrow> build_pool (InitGlobalBuildThreadPool n w) = None"
  by (cases "n = 0"; cases "build_pool w"; simp add: registry_eqs LOG_def)+

lemma InitGlobalSearchThreadPool_pointers:
  "search_pool w = Some a \<Longrightarrow> search_pool (InitGlobalSearchThreadPool n w) = Some a"
  "build_pool (InitGlobalSearchThreadPool n w) = build_pool w"
  "search_pool w = None \<Longrightarrow> n \<noteq> 0 \<Longrightarrow>
     search_pool (InitGlobalSearchThreadPool n w) = Some (length (heap w))"
  "search_pool w = None \<Longrightarrow> n = 0 \<Longrightarrow> search_pool (InitGlobalSearchThreadPool n w) = None"
  by (cases "n = 0"; cases "search_pool w"; simp add: registry_eqs LOG_def)+

lemma InitGlobalBuildThreadPool_names:
  "pool_names (InitGlobalBuildThreadPool n w) =
     pool_names w @ (if build_pool w = None \<and> n \<noteq> 0 then [''knowhere_build''] else [])"
  by (cases "n = 0"; cases "build_pool w";
      simp add: registry_eqs LOG_def pool_names_def ThreadPool_ctor_def)

lemma InitGlobalSearchThreadPool_names:
  "pool_names (InitGlobalSearchThreadPool n w) =
     pool_names w @ (if search_pool w = None \<and> n \<noteq> 0 then [''knowhere_search''] else [])"
  by (cases "n = 0"; cases "search_pool w";
      simp add: registry_eqs LOG_def pool_names_def ThreadPool_ctor_def)

lemma SetGlobalBuildThreadPoolSize_pointers:
  "build_pool w = Some a \<Longrightarrow> build_pool (SetGlobalBuildThreadPoolSize n w) = Some a"
  "search_pool (SetGlobalBuildThreadPoolSize n w) = search_pool w"
  "build_pool w = None \<Longrightarrow> n \<noteq> 0 \<Longrightarrow>
     build_pool (SetGlobalBuildThreadPoolSize n w) = Some (length (heap w))"
  "build_pool w = None \<Longrightarrow> n = 0 \<Longrightarrow> build_pool (SetGlobalBuildThreadPoolSize n w) = None"
  by (cases "build_pool w";
      simp add: SetGlobalBuildThreadPoolSize_unset SetGlobalBuildThreadPoolSize_set
        InitGlobalBuildThreadPool_pointers)+

lemma SetGlobalSearchThreadPoolSize_pointers:
  "search_pool w = Some a \<Longrightarrow> search_pool (SetGlobalSearchThreadPoolSize n w) = Some a"
  "build_pool (SetGlobalSearchThreadPoolSize n w) = build_pool w"
  "search_pool w = None \<Longrightarrow> n \<noteq> 0 \<Longrightarrow>
     search_pool (SetGlobalSearchThreadPoolSize n w) = Some (length (heap w))"
  "search_pool w = None \<Longrightarrow> n = 0 \<Longrightarrow> search_pool (SetGlobalSearchThreadPoolSize n w) = None"
  by (cases "search_pool w";
      simp add: SetGlobalSearchThreadPoolSize_unset SetGlobalSearchThreadPoolSize_set
        InitGlobalSearchThreadPool_pointers)+

lemma SetGlobalBuildThreadPoolSize_names:
  "pool_names (SetGlobalBuildThreadPoolSize n w) =
     pool_names w @ (if build_pool w = None \<and> n \<noteq> 0 then [''knowhere_build''] else [])"
proof (cases "build_pool w")
  case None
  then show ?thesis
    by (simp add: SetGlobalBuildThreadPoolSize_unset InitGlobalBuildThreadPool_names)
next
  case (Some a)
  then show ?thesis
    by (simp add: SetGlobalBuildThreadPoolSize_set pool_names_def
          names_list_update SetNumThreads_threadFactory)
qed

lemma SetGlobalSearchThreadPoolSize_names:
  "pool_names (SetGlobalSearchThreadPoolSize n w) =
     pool_names w @ (if search_pool w = None \<and> n \<noteq> 0 then [''knowhere_search''] else [])"
proof (cases "search_pool w")
  case None
  then show ?thesis
    by (simp add: SetGlobalSearchThreadPoolSize_unset InitGlobalSearchThreadPool_names)
next
  case (Some a)
  then show ?thesis
    by (simp add: SetGlobalSearchThreadPoolSize_set pool_names_def
          names_list_update SetNumThreads_threadFactory)
qed

lemma GetGlobalBuildThreadPool_world:
  "snd (GetGlobalBuildThreadPool hc w) =
     (if build_pool w = None then InitGlobalBuildThreadPool hc w else w)"
  "fst (GetGlobalBuildThreadPool hc w) = build_pool (snd (GetGlobalBuildThreadPool hc w))"
  by (simp_all add: GetGlobalBuildThreadPool_def Let_def)

lemma GetGlobalSearchThreadPool_world:
  "snd (GetGlobalSearchThreadPool hc w) =
     (if search_pool w = None then InitGlobalSearchThreadPool hc w else w)"
  "fst (GetGlobalSearchThreadPool hc w) = search_pool (snd (GetGlobalSearchThreadPool hc w))"
  by (simp_all add: GetGlobalSearchThreadPool_def Let_def)


text \<open>One registry call, then any sequence of them.\<close>

lemma registry_step_global_pool:
  "global_pool c w = Some a \<Longrightarrow> global_pool c (registry_step r w) = Some a"
proof (cases r)
  case (Init cls n)
  then show "global_pool c w = Some a \<Longrightarrow> ?thesis"
    by (cases cls; cases c)
       (simp_all add: InitGlobalBuildThreadPool_pointers InitGlobalSearchThreadPool_pointers)
next
  case (SetSize cls n)
  then show "global_pool c w = Some a \<Longrightarrow> ?thesis"
    by (cases cls; cases c)
       (simp_all add: SetGlobalBuildThreadPoolSize_pointers
          SetGlobalSearchThreadPoolSize_pointers)
next
  case (Get cls hc)
  then show "global_pool c w = Some a \<Longrightarrow> ?thesis"
    by (cases cls; cases c)
       (simp_all add: GetGlobalBuildThreadPool_world GetGlobalSearchThreadPool_world
          InitGlobalBuildThreadPool_pointers InitGlobalSearchThreadPool_pointers)
qed

text \<open>One registry call, then any sequence of them.\<close>

lemma registry_step_count:
  "count_list (pool_names (registry_step r w)) (class_name c) =
     count_list (pool_names w) (class_name c) +
     (if global_pool c w = None \<and> global_pool c (registry_step r w) \<noteq> None then 1 else 0)"
proof (cases r)
  case (Init cls n)
  then show ?thesis
    by (cases cls; cases c; cases "n = 0"; cases "global_pool c w")
       (simp_all add: class_name_def InitGlobalBuildThreadPool_names
          InitGlobalSearchThreadPool_names InitGlobalBuildThreadPool_pointers
          InitGlobalSearchThreadPool_pointers)
next
  case (SetSize cls n)
  then show ?thesis
    by (cases cls; cases c; cases "n = 0"; cases "global_pool c w")
       (simp_all add: class_name_def SetGlobalBuildThreadPoolSize_names
          SetGlobalSearchThreadPoolSize_names SetGlobalBuildThreadPoolSize_pointers
          SetGlobalSearchThreadPoolSize_pointers)
next
  case (Get cls hc)
  then show ?thesis
    by (cases cls; cases c; cases "hc = 0"; cases "global_pool c w")
       (simp_all add: class_name_def GetGlobalBuildThreadPool_world
          GetGlobalSearchThreadPool_world InitGlobalBuildThreadPool_names
          InitGlobalSearchThreadPool_names InitGlobalBuildThreadPool_pointers
          InitGlobalSearchThreadPool_pointers)
qed

lemma registry_run_global_pool:
  "global_pool c w = Some a \<Longrightarrow> global_pool c (registry_run rs w) = Some a"
  unfolding registry_run_def
  by (induction rs arbitrary: w) (simp_all add: registry_step_global_pool)

lemma registry_run_count:
  "count_list (pool_names (registry_run rs w)) (class_name c) =
     count_list (pool_names w) (class_name c) +
     (if global_pool c w = None \<and> global_pool c (registry_run rs w) \<noteq> None then 1 else 0)"
proof (induction rs arbitrary: w)
  case Nil
  show ?case by (cases "global_pool c w") (simp_all add: registry_run_def)
next
  case (Cons r rs)
  let ?w1 = "registry_step r w"
  have run: "registry_run (r # rs) w = registry_run rs ?w1"
    by (simp add: registry_run_def)
  note step = registry_step_count [of r w c]
  note rest = Cons.IH [of ?w1]
  show ?case
  proof (cases "global_pool c w")
    case (Some a)
    then have s1: "global_pool c ?w1 = Some a"
      by (rule registry_step_global_pool)
    then have "global_pool c (registry_run rs ?w1) = Some a"
      by (rule registry_run_global_pool)
    with Some s1 step rest show ?thesis by (simp add: run)
  next
    case None
    show ?thesis
    proof (cases "global_pool c ?w1")
      case (Some a)
      then have "global_pool c (registry_run rs ?w1) = Some a"
        by (rule registry_run_global_pool)
      with None Some step rest show ?thesis by (simp add: run)
    next
      case n1: None
      with None step rest show ?thesis by (simp add: run)
    qed
  qed
qed

lemma wf_world_registry_step:
  "wf_world w \<Longrightarrow> wf_world (registry_step r w)"
proof (cases r)
  case (Init cls n)
  then show "wf_world w \<Longrightarrow> ?thesis"
    by (cases cls; cases "n = 0"; cases "global_pool cls w")
       (auto simp: wf_world_def registry_eqs LOG_def split: option.splits)
next
  case (SetSize cls n)
  then show "wf_world w \<Longrightarrow> ?thesis"
    by (cases cls; cases "n = 0"; cases "global_pool cls w")
       (auto simp: wf_world_def registry_eqs LOG_def split: option.splits)
next
  case (Get cls hc)
  then show "wf_world w \<Longrightarrow> ?thesis"
    by (cases cls; cases "hc = 0"; cases "global_pool cls w")
       (auto simp: wf_world_def registry_eqs LOG_def split: option.splits)
qed

lemma wf_world_registry_run:
  "wf_world w \<Longrightarrow> wf_world (registry_run rs w)"
  unfolding registry_run_def
  by (induction rs arbitrary: w) (simp_all add: wf_world_registry_step)

lemma wf_world0: "wf_world world0"
  by (simp add: wf_world_def world0_def)

lemma GetGlobalBuildThreadPool_fresh:
  assumes "hc \<noteq> 0" and "build_pool w = None"
  shows "fst (GetGlobalBuildThreadPool hc w) = Some (length (heap w))"
    and "heap (snd (GetGlobalBuildThreadPool hc w)) ! length (heap w)
           = ThreadPool_ctor hc ''knowhere_build''"
  using assms
  by (simp_all add: GetGlobalBuildThreadPool_world InitGlobalBuildThreadPool_unset)

lemma GetGlobalSearchThreadPool_fresh:
  assumes "hc \<noteq> 0" and "search_pool w = None"
  shows "fst (GetGlobalSearchThreadPool hc w) = Some (length (heap w))"
    and "heap (snd (GetGlobalSearchThreadPool hc w)) ! length (heap w)
           = ThreadPool_ctor hc ''knowhere_search''"
  using assms
  by (simp_all add: GetGlobalSearchThreadPool_world InitGlobalSearchThreadPool_unset)

lemma InitGlobalBuildThreadPool_4_world0:
  "InitGlobalBuildThreadPool 4 world0 =
     \<lparr>heap = [ThreadPool_ctor 4 ''knowhere_build''], build_pool = Some 0, search_pool = None,
      nthreads_var = 8, omp_nonpositive = (\<lambda>_. 1),
      log = [LOG_KNOWHERE_INFO ''Init global build thread pool with size '' 4]\<rparr>"
  by (simp add: InitGlobalBuildThreadPool_unset world0_def)

lemma ThreadPool_size_ctor: "ThreadPool_size (ThreadPool_ctor n pfx) = n"
  by (simp add: ThreadPool_size_def ThreadPool_ctor_def ucast_64_32_id)

text \<open>
  C3, as the code has it. The constructor does not check \<^verbatim>\<open>thread_count\<close> and logs
  nothing: constructing with a count of 0 hands 0 threads and a queue capacity
  of 0 to the executor, and the log is as it was. (Whether the executor library
  then accepts a queue of capacity 0 is its own matter; the record keeps what it
  is handed.) The diagnostic with no other change of state is what the registry's
  init functions do when they are asked for 0 threads: the record is logged and
  the pointer, the heap and the budget stay as they were.
\<close>

theorem ThreadPool_ctor_zero_unchecked:
  "make_shared_ThreadPool 0 pfx w =
     (length (heap w),
      w\<lparr>heap := heap w @ [\<lparr>pool = \<lparr>numThreads = 0, queue_capacity = 0, threadFactory = pfx\<rparr>\<rparr>]\<rparr>)
   \<and> log (snd (make_shared_ThreadPool 0 pfx w)) = log w
   \<and> InitGlobalBuildThreadPool 0 w =
       w\<lparr>log := log w @ [LOG_KNOWHERE_ERROR ''num_threads should be bigger than 0'']\<rparr>
   \<and> InitGlobalSearchThreadPool 0 w =
       w\<lparr>log := log w @ [LOG_KNOWHERE_ERROR ''num_threads should be bigger than 0'']\<rparr>"
  by (simp add: make_shared_ThreadPool_def ThreadPool_ctor_def kTaskQueueFactor_def
        InitGlobalBuildThreadPool_zero InitGlobalSearchThreadPool_zero LOG_def)

text \<open>
  C3 as stated fails: constructing a pool with 0 threads in the initial state
  logs no diagnostic, and the state is not unchanged.
\<close>

theorem ThreadPool_ctor_zero_counterexample:
  "log (snd (make_shared_ThreadPool 0 ''knowhere_build'' world0)) = log world0
   \<and> heap (snd (make_shared_ThreadPool 0 ''knowhere_build'' world0)) \<noteq> heap world0"
  by (simp add: make_shared_ThreadPool_def world0_def)

text \<open>
  C2 at the input where the code fails it. \<^verbatim>\<open>std::thread::hardware_concurrency()\<close>
  may return 0. Then, for a class that was never initialised, the getter calls
  the init function with 0, which logs its error and constructs nothing, and the
  getter returns the null pointer: for the build class and for the search class.
\<close>

theorem GetGlobalThreadPool_hardware_concurrency_zero:
  "build_pool world0 = None
   \<and> fst (GetGlobalBuildThreadPool 0 world0) = None
   \<and> log (snd (GetGlobalBuildThreadPool 0 world0))
       = [LOG_KNOWHERE_ERROR ''num_threads should be bigger than 0'']
   \<and> search_pool world0 = None
   \<and> fst (GetGlobalSearchThreadPool 0 world0) = None
   \<and> log (snd (GetGlobalSearchThreadPool 0 world0))
       = [LOG_KNOWHERE_ERROR ''num_threads should be bigger than 0'']"
  by (simp add: GetGlobalBuildThreadPool_world GetGlobalSearchThreadPool_world
        InitGlobalBuildThreadPool_zero InitGlobalSearchThreadPool_zero LOG_def world0_def)

text \<open>
  C9. The guards reject exactly the count 0. \<^verbatim>\<open>SetNumThreads\<close> answers with its
  error record, and the init functions with theirs, if and only if \<open>n = 0\<close>. For
  every other \<^verbatim>\<open>uint32_t\<close> value, that is for every \<open>n\<close> from 1 to \<open>2\<^sup>3\<^sup>2 - 1\<close>,
  \<^verbatim>\<open>SetNumThreads\<close> sets the executor's count to \<open>n\<close> and logs nothing, and init on
  an unset class constructs one pool, configured with \<open>n\<close> threads, and points
  the class to it.
\<close>

theorem zero_is_the_only_rejected_count:
  "(SetNumThreads n p = (p, [LOG_KNOWHERE_ERROR ''set number of threads can not be 0''])
      \<longleftrightarrow> n = 0)
   \<and> (InitGlobalBuildThreadPool n w =
         LOG (LOG_KNOWHERE_ERROR ''num_threads should be bigger than 0'') w \<longleftrightarrow> n = 0)
   \<and> (InitGlobalSearchThreadPool n w =
         LOG (LOG_KNOWHERE_ERROR ''num_threads should be bigger than 0'') w \<longleftrightarrow> n = 0)
   \<and> (n \<noteq> 0 \<longrightarrow>
        uint (numThreads (pool (fst (SetNumThreads n p)))) = uint n
        \<and> queue_capacity (pool (fst (SetNumThreads n p))) = queue_capacity (pool p)
        \<and> snd (SetNumThreads n p) = [])
   \<and> (n \<noteq> 0 \<and> build_pool w = None \<longrightarrow>
        build_pool (InitGlobalBuildThreadPool n w) = Some (length (heap w))
        \<and> heap (InitGlobalBuildThreadPool n w) = heap w @ [ThreadPool_ctor n ''knowhere_build'']
        \<and> uint (numThreads (pool (heap (InitGlobalBuildThreadPool n w) ! length (heap w))))
            = uint n)
   \<and> (n \<noteq> 0 \<and> search_pool w = None \<longrightarrow>
        search_pool (InitGlobalSearchThreadPool n w) = Some (length (heap w))
        \<and> heap (InitGlobalSearchThreadPool n w) = heap w @ [ThreadPool_ctor n ''knowhere_search'']
        \<and> uint (numThreads (pool (heap (InitGlobalSearchThreadPool n w) ! length (heap w))))
            = uint n)"
proof (intro conjI impI)
  show "SetNumThreads n p = (p, [LOG_KNOWHERE_ERROR ''set number of threads can not be 0''])
          \<longleftrightarrow> n = 0"
    by (simp add: SetNumThreads_def)
next
  have ne: "log (InitGlobalBuildThreadPool n w)
          \<noteq> log (LOG (LOG_KNOWHERE_ERROR ''num_threads should be bigger than 0'') w)"
    if "n \<noteq> 0"
    using that by (cases "build_pool w") (simp_all add: registry_eqs LOG_def)
  show "InitGlobalBuildThreadPool n w =
         LOG (LOG_KNOWHERE_ERROR ''num_threads should be bigger than 0'') w \<longleftrightarrow> n = 0"
  proof
    assume "InitGlobalBuildThreadPool n w =
         LOG (LOG_KNOWHERE_ERROR ''num_threads should be bigger than 0'') w"
    then have "log (InitGlobalBuildThreadPool n w)
          = log (LOG (LOG_KNOWHERE_ERROR ''num_threads should be bigger than 0'') w)"
      by (rule arg_cong)
    with ne show "n = 0" by blast
  next
    assume "n = 0"
    then show "InitGlobalBuildThreadPool n w =
         LOG (LOG_KNOWHERE_ERROR ''num_threads should be bigger than 0'') w"
      by (simp add: InitGlobalBuildThreadPool_zero)
  qed
next
  have ne: "log (InitGlobalSearchThreadPool n w)
          \<noteq> log (LOG (LOG_KNOWHERE_ERROR ''num_threads should be bigger than 0'') w)"
    if "n \<noteq> 0"
    using that by (cases "search_pool w") (simp_all add: registry_eqs LOG_def)
  show "InitGlobalSearchThreadPool n w =
         LOG (LOG_KNOWHERE_ERROR ''num_threads should be bigger than 0'') w \<longleftrightarrow> n = 0"
  proof
    assume "InitGlobalSearchThreadPool n w =
         LOG (LOG_KNOWHERE_ERROR ''num_threads should be bigger than 0'') w"
    then have "log (InitGlobalSearchThreadPool n w)
          = log (LOG (LOG_KNOWHERE_ERROR ''num_threads should be bigger than 0'') w)"
      by (rule arg_cong)
    with ne show "n = 0" by blast
  next
    assume "n = 0"
    then show "InitGlobalSearchThreadPool n w =
         LOG (LOG_KNOWHERE_ERROR ''num_threads should be bigger than 0'') w"
      by (simp add: InitGlobalSearchThreadPool_zero)
  qed
next
  assume "n \<noteq> 0"
  then show "uint (numThreads (pool (fst (SetNumThreads n p)))) = uint n"
    and "queue_capacity (pool (fst (SetNumThreads n p))) = queue_capacity (pool p)"
    and "snd (SetNumThreads n p) = []"
    by (simp_all add: SetNumThreads_def setNumThreads_def uint_ucast_32_64)
next
  assume a: "n \<noteq> 0 \<and> build_pool w = None"
  then show "build_pool (InitGlobalBuildThreadPool n w) = Some (length (heap w))"
    and "heap (InitGlobalBuildThreadPool n w) = heap w @ [ThreadPool_ctor n ''knowhere_build'']"
    and "uint (numThreads (pool (heap (InitGlobalBuildThreadPool n w) ! length (heap w))))
            = uint n"
    by (simp_all add: InitGlobalBuildThreadPool_unset ThreadPool_ctor_def uint_ucast_32_64)
next
  assume a: "n \<noteq> 0 \<and> search_pool w = None"
  then show "search_pool (InitGlobalSearchThreadPool n w) = Some (length (heap w))"
    and "heap (InitGlobalSearchThreadPool n w) = heap w @ [ThreadPool_ctor n ''knowhere_search'']"
    and "uint (numThreads (pool (heap (InitGlobalSearchThreadPool n w) ! length (heap w))))
            = uint n"
    by (simp_all add: InitGlobalSearchThreadPool_unset ThreadPool_ctor_def uint_ucast_32_64)
qed

text \<open>
  The theorem at \<open>2\<^sup>3\<^sup>2 - 1\<close>, the count that the signed argument \<^verbatim>\<open>-1\<close> converts to.
\<close>

theorem zero_is_the_only_rejected_count_witness:
  "(- 1 :: uint32_t) = 4294967295
   \<and> uint (numThreads (pool (fst (SetNumThreads 4294967295 (ThreadPool_ctor 4 ''knowhere_build'')))))
       = 4294967295
   \<and> build_pool (InitGlobalBuildThreadPool 4294967295 world0) = Some 0
   \<and> uint (numThreads (pool (heap (InitGlobalBuildThreadPool 4294967295 world0) ! 0)))
       = 4294967295
   \<and> search_pool (InitGlobalSearchThreadPool 4294967295 world0) = Some 0
   \<and> uint (numThreads (pool (heap (InitGlobalSearchThreadPool 4294967295 world0) ! 0)))
       = 4294967295"
proof -
  have n: "(4294967295 :: uint32_t) \<noteq> 0" by simp
  have m: "(- 1 :: uint32_t) = 4294967295" by simp
  have b: "build_pool world0 = None" and s: "search_pool world0 = None"
    and h: "length (heap world0) = 0"
    by (simp_all add: world0_def)
  from zero_is_the_only_rejected_count
    [of 4294967295 "ThreadPool_ctor 4 ''knowhere_build''" world0] n b s h m
  show ?thesis by (simp add: ThreadPool_ctor_def)
qed

text \<open>
  C6. Along every sequence \<open>rs\<close> of registry calls (init, set-size and get, of
  either class, with any arguments) from any state: a class pointer that is set
  keeps its address, so the pool is never replaced; the number of pools that
  carry the class's name grows by one if the class went from unset to set and
  not at all otherwise, so from the initial state at most one pool per class is
  ever constructed. And init with \<open>x\<close> followed by init with \<open>y\<close>, both not 0, on
  an unset class leaves the one pool constructed with \<open>x\<close> threads: the second
  call only logs the size it found.
\<close>

theorem global_pool_constructed_once:
  "(global_pool c w = Some a \<longrightarrow> global_pool c (registry_run rs w) = Some a)
   \<and> count_list (pool_names (registry_run rs w)) (class_name c) =
        count_list (pool_names w) (class_name c) +
        (if global_pool c w = None \<and> global_pool c (registry_run rs w) \<noteq> None then 1 else 0)
   \<and> count_list (pool_names (registry_run rs world0)) (class_name c) \<le> 1
   \<and> (x \<noteq> 0 \<and> y \<noteq> 0 \<and> build_pool w = None \<longrightarrow>
        InitGlobalBuildThreadPool y (InitGlobalBuildThreadPool x w) =
          LOG (LOG_KNOWHERE_INFO
                 ''Global build thread pool size has already been initialized to ''
                 (sint (ThreadPool_size (ThreadPool_ctor x ''knowhere_build''))))
            (InitGlobalBuildThreadPool x w)
        \<and> build_pool (InitGlobalBuildThreadPool y (InitGlobalBuildThreadPool x w))
            = Some (length (heap w))
        \<and> heap (InitGlobalBuildThreadPool y (InitGlobalBuildThreadPool x w))
            = heap w @ [ThreadPool_ctor x ''knowhere_build'']
        \<and> uint (numThreads (pool (ThreadPool_ctor x ''knowhere_build''))) = uint x)
   \<and> (x \<noteq> 0 \<and> y \<noteq> 0 \<and> search_pool w = None \<longrightarrow>
        InitGlobalSearchThreadPool y (InitGlobalSearchThreadPool x w) =
          LOG (LOG_KNOWHERE_INFO
                 ''Global search thread pool size has already been initialized to ''
                 (sint (ThreadPool_size (ThreadPool_ctor x ''knowhere_search''))))
            (InitGlobalSearchThreadPool x w)
        \<and> search_pool (InitGlobalSearchThreadPool y (InitGlobalSearchThreadPool x w))
            = Some (length (heap w))
        \<and> heap (InitGlobalSearchThreadPool y (InitGlobalSearchThreadPool x w))
            = heap w @ [ThreadPool_ctor x ''knowhere_search'']
        \<and> uint (numThreads (pool (ThreadPool_ctor x ''knowhere_search''))) = uint x)"
proof (intro conjI impI)
  assume "global_pool c w = Some a"
  then show "global_pool c (registry_run rs w) = Some a"
    by (rule registry_run_global_pool)
next
  show "count_list (pool_names (registry_run rs w)) (class_name c) =
        count_list (pool_names w) (class_name c) +
        (if global_pool c w = None \<and> global_pool c (registry_run rs w) \<noteq> None then 1 else 0)"
    by (rule registry_run_count)
next
  have "count_list (pool_names world0) (class_name c) = 0"
    by (simp add: pool_names_def world0_def)
  with registry_run_count [of rs world0 c]
  show "count_list (pool_names (registry_run rs world0)) (class_name c) \<le> 1"
    by simp
next
  assume a: "x \<noteq> 0 \<and> y \<noteq> 0 \<and> build_pool w = None"
  let ?w1 = "InitGlobalBuildThreadPool x w"
  from a have w1: "?w1 = w\<lparr>heap := heap w @ [ThreadPool_ctor x ''knowhere_build''],
       build_pool := Some (length (heap w)),
       log := log w @ [LOG_KNOWHERE_INFO ''Init global build thread pool with size '' (uint x)]\<rparr>"
    by (simp add: InitGlobalBuildThreadPool_unset)
  then have set: "build_pool ?w1 = Some (length (heap w))"
    and hp: "heap ?w1 = heap w @ [ThreadPool_ctor x ''knowhere_build'']"
    by simp_all
  from a set have w2: "InitGlobalBuildThreadPool y ?w1 =
     LOG (LOG_KNOWHERE_INFO ''Global build thread pool size has already been initialized to ''
            (sint (ThreadPool_size (heap ?w1 ! length (heap w))))) ?w1"
    by (simp add: InitGlobalBuildThreadPool_set)
  show "InitGlobalBuildThreadPool y ?w1 =
          LOG (LOG_KNOWHERE_INFO
                 ''Global build thread pool size has already been initialized to ''
                 (sint (ThreadPool_size (ThreadPool_ctor x ''knowhere_build'')))) ?w1"
    using w2 hp by simp
  show "build_pool (InitGlobalBuildThreadPool y ?w1) = Some (length (heap w))"
    using set by (simp add: w2 LOG_def)
  show "heap (InitGlobalBuildThreadPool y ?w1) = heap w @ [ThreadPool_ctor x ''knowhere_build'']"
    using hp by (simp add: w2 LOG_def)
  show "uint (numThreads (pool (ThreadPool_ctor x ''knowhere_build''))) = uint x"
    by (simp add: ThreadPool_ctor_def uint_ucast_32_64)
next
  assume a: "x \<noteq> 0 \<and> y \<noteq> 0 \<and> search_pool w = None"
  let ?w1 = "InitGlobalSearchThreadPool x w"
  from a have w1: "?w1 = w\<lparr>heap := heap w @ [ThreadPool_ctor x ''knowhere_search''],
       search_pool := Some (length (heap w)),
       log := log w @ [LOG_KNOWHERE_INFO ''Init global search thread pool with size '' (uint x)]\<rparr>"
    by (simp add: InitGlobalSearchThreadPool_unset)
  then have set: "search_pool ?w1 = Some (length (heap w))"
    and hp: "heap ?w1 = heap w @ [ThreadPool_ctor x ''knowhere_search'']"
    by simp_all
  from a set have w2: "InitGlobalSearchThreadPool y ?w1 =
     LOG (LOG_KNOWHERE_INFO ''Global search thread pool size has already been initialized to ''
            (sint (ThreadPool_size (heap ?w1 ! length (heap w))))) ?w1"
    by (simp add: InitGlobalSearchThreadPool_set)
  show "InitGlobalSearchThreadPool y ?w1 =
          LOG (LOG_KNOWHERE_INFO
                 ''Global search thread pool size has already been initialized to ''
                 (sint (ThreadPool_size (ThreadPool_ctor x ''knowhere_search'')))) ?w1"
    using w2 hp by simp
  show "search_pool (InitGlobalSearchThreadPool y ?w1) = Some (length (heap w))"
    using set by (simp add: w2 LOG_def)
  show "heap (InitGlobalSearchThreadPool y ?w1) = heap w @ [ThreadPool_ctor x ''knowhere_search'']"
    using hp by (simp add: w2 LOG_def)
  show "uint (numThreads (pool (ThreadPool_ctor x ''knowhere_search''))) = uint x"
    by (simp add: ThreadPool_ctor_def uint_ucast_32_64)
qed

text \<open>
  The theorem at a run on the build class that inits twice, resizes and gets,
  and at init with 4 followed by init with 8 for both classes.
\<close>

theorem global_pool_constructed_once_witness:
  "global_pool Build
     (registry_run [Init Build 8, SetSize Build 2, Get Build 16, Init Search 3]
        (InitGlobalBuildThreadPool 4 world0)) = Some 0
   \<and> count_list
        (pool_names (registry_run [Init Build 4, Init Build 8, SetSize Build 2, Get Build 16]
           world0)) (class_name Build) = 1
   \<and> heap (InitGlobalBuildThreadPool 8 (InitGlobalBuildThreadPool 4 world0))
       = [ThreadPool_ctor 4 ''knowhere_build'']
   \<and> heap (InitGlobalSearchThreadPool 8 (InitGlobalSearchThreadPool 4 world0))
       = [ThreadPool_ctor 4 ''knowhere_search'']"
proof -
  let ?w1 = "InitGlobalBuildThreadPool 4 world0"
  have set: "global_pool Build ?w1 = Some 0"
    by (simp add: InitGlobalBuildThreadPool_4_world0)
  have run: "registry_run [Init Build 4, Init Build 8, SetSize Build 2, Get Build 16] world0
      = registry_run [Init Build 8, SetSize Build 2, Get Build 16] ?w1"
    by (simp add: registry_run_def)
  have unset: "global_pool Build world0 = None" "build_pool world0 = None"
    "search_pool world0 = None" "heap world0 = []"
    by (simp_all add: world0_def)
  have none: "count_list (pool_names world0) (class_name Build) = 0"
    by (simp add: pool_names_def world0_def)
  have nz: "(4 :: uint32_t) \<noteq> 0" "(8 :: uint32_t) \<noteq> 0"
    by simp_all
  note a = global_pool_constructed_once
    [of Build ?w1 0 "[Init Build 8, SetSize Build 2, Get Build 16, Init Search 3]" 4 8]
  note b = global_pool_constructed_once
    [of Build ?w1 0 "[Init Build 8, SetSize Build 2, Get Build 16]" 4 8]
  note c = global_pool_constructed_once
    [of Build world0 0 "[Init Build 4, Init Build 8, SetSize Build 2, Get Build 16]" 4 8]
  from a set
  have 1: "global_pool Build
     (registry_run [Init Build 8, SetSize Build 2, Get Build 16, Init Search 3] ?w1) = Some 0"
    by blast
  from b set
  have "global_pool Build (registry_run [Init Build 8, SetSize Build 2, Get Build 16] ?w1)
      = Some 0"
    by blast
  with c unset none
  have 2: "count_list
        (pool_names (registry_run [Init Build 4, Init Build 8, SetSize Build 2, Get Build 16]
           world0)) (class_name Build) = 1"
    by (simp add: run)
  from c have "(4 :: uint32_t) \<noteq> 0 \<and> (8 :: uint32_t) \<noteq> 0 \<and> build_pool world0 = None \<longrightarrow>
      heap (InitGlobalBuildThreadPool 8 (InitGlobalBuildThreadPool 4 world0))
        = heap world0 @ [ThreadPool_ctor 4 ''knowhere_build'']"
    by blast
  with nz unset
  have 3: "heap (InitGlobalBuildThreadPool 8 (InitGlobalBuildThreadPool 4 world0))
       = [ThreadPool_ctor 4 ''knowhere_build'']"
    by simp
  from c have "(4 :: uint32_t) \<noteq> 0 \<and> (8 :: uint32_t) \<noteq> 0 \<and> search_pool world0 = None \<longrightarrow>
      heap (InitGlobalSearchThreadPool 8 (InitGlobalSearchThreadPool 4 world0))
        = heap world0 @ [ThreadPool_ctor 4 ''knowhere_search'']"
    by blast
  with nz unset
  have 4: "heap (InitGlobalSearchThreadPool 8 (InitGlobalSearchThreadPool 4 world0))
       = [ThreadPool_ctor 4 ''knowhere_search'']"
    by simp
  from 1 2 3 4 show ?thesis by blast
qed

section \<open>ScopedOmpSetter: results\<close>

text \<open>
  A positive \<^verbatim>\<open>size()\<close> is the configured thread count, for every pool whose count
  came in as a \<^verbatim>\<open>uint32_t\<close> (as every count in this header does).
\<close>

lemma ThreadPool_size_positive:
  assumes "uint (numThreads (pool p)) < 4294967296"
    and "0 <s ThreadPool_size p"
  shows "sint (ThreadPool_size p) = uint (numThreads (pool p))"
proof -
  have u: "uint (ThreadPool_size p) = uint (numThreads (pool p))"
  proof -
    have "uint (ThreadPool_size p) = uint (numThreads (pool p)) mod 4294967296"
      by (simp add: ThreadPool_size_def unsigned_ucast_eq take_bit_eq_mod)
    also have "\<dots> = uint (numThreads (pool p))"
      using assms(1) by (intro mod_pos_pos_trivial) simp_all
    finally show ?thesis .
  qed
  have "uint (ThreadPool_size p) < 2147483648"
  proof (rule ccontr)
    assume "\<not> uint (ThreadPool_size p) < 2147483648"
    then have "sint (ThreadPool_size p) = uint (ThreadPool_size p) - 4294967296"
      by (intro sint32_large) simp
    moreover have "uint (ThreadPool_size p) < 4294967296"
      using uint_lt2p [of "ThreadPool_size p"] by simp
    ultimately have "sint (ThreadPool_size p) < 0" by simp
    with assms(2) show False by (simp add: word_sless_alt)
  qed
  then have "sint (ThreadPool_size p) = uint (ThreadPool_size p)"
    by (rule sint32_small)
  with u show ?thesis by simp
qed

lemma sle_sless:
  fixes n :: "32 word"
  shows "\<not> n \<le>s 0 \<longleftrightarrow> 0 <s n"
  by (simp add: word_sle_eq word_sless_alt not_le)

text \<open>
  C5. For every \<open>n\<close>, the constructor records as prior the build pool's \<^verbatim>\<open>size()\<close>
  if the build pool exists and the nested runtime's current budget otherwise, and
  requests \<open>n\<close> from the nested runtime if \<open>n\<close> is positive and the recorded prior
  if it is not. So the budget after construction is \<open>n\<close> for a positive \<open>n\<close>, and
  for every positive prior it is the prior when \<open>n \<le> 0\<close>; and for every positive
  prior the budget after the destructor, in whatever state \<open>w'\<close> the scope ends, is
  exactly the recorded prior.
\<close>

theorem ScopedOmpSetter_prior_and_restore:
  "omp_before (fst (ScopedOmpSetter_ctor n w)) =
     (case build_pool w of None \<Rightarrow> omp_get_max_threads w
      | Some a \<Rightarrow> ThreadPool_size (heap w ! a))
   \<and> snd (ScopedOmpSetter_ctor n w) =
       omp_set_num_threads
         (if 0 <s n then n else omp_before (fst (ScopedOmpSetter_ctor n w))) w
   \<and> (0 <s n \<longrightarrow> omp_get_max_threads (snd (ScopedOmpSetter_ctor n w)) = n)
   \<and> (n \<le>s 0 \<and> 0 <s omp_before (fst (ScopedOmpSetter_ctor n w)) \<longrightarrow>
        omp_get_max_threads (snd (ScopedOmpSetter_ctor n w))
          = omp_before (fst (ScopedOmpSetter_ctor n w)))
   \<and> (0 <s omp_before (fst (ScopedOmpSetter_ctor n w)) \<longrightarrow>
        omp_get_max_threads (ScopedOmpSetter_dtor (fst (ScopedOmpSetter_ctor n w)) w')
          = omp_before (fst (ScopedOmpSetter_ctor n w)))"
proof (intro conjI impI)
  show "omp_before (fst (ScopedOmpSetter_ctor n w)) =
     (case build_pool w of None \<Rightarrow> omp_get_max_threads w
      | Some a \<Rightarrow> ThreadPool_size (heap w ! a))"
    by (cases "build_pool w") (simp_all add: ScopedOmpSetter_ctor_def Let_def)
next
  show "snd (ScopedOmpSetter_ctor n w) =
       omp_set_num_threads
         (if 0 <s n then n else omp_before (fst (ScopedOmpSetter_ctor n w))) w"
    using sle_sless [of n] by (auto simp: ScopedOmpSetter_ctor_def Let_def)
next
  assume "0 <s n"
  then show "omp_get_max_threads (snd (ScopedOmpSetter_ctor n w)) = n"
    using sle_sless [of n]
    by (simp add: ScopedOmpSetter_ctor_def Let_def omp_set_num_threads_def
          omp_get_max_threads_def)
next
  assume "n \<le>s 0 \<and> 0 <s omp_before (fst (ScopedOmpSetter_ctor n w))"
  then show "omp_get_max_threads (snd (ScopedOmpSetter_ctor n w))
          = omp_before (fst (ScopedOmpSetter_ctor n w))"
    by (simp add: ScopedOmpSetter_ctor_def Let_def omp_set_num_threads_def
          omp_get_max_threads_def)
next
  assume "0 <s omp_before (fst (ScopedOmpSetter_ctor n w))"
  then show "omp_get_max_threads (ScopedOmpSetter_dtor (fst (ScopedOmpSetter_ctor n w)) w')
          = omp_before (fst (ScopedOmpSetter_ctor n w))"
    by (simp add: ScopedOmpSetter_dtor_def omp_set_num_threads_def omp_get_max_threads_def)
qed

text \<open>
  The theorem without a build pool (prior 8, set to 3, changed to 5 inside the
  scope, restored to 8) and with a build pool of 4 threads and \<open>n = 0\<close>.
\<close>

theorem ScopedOmpSetter_prior_and_restore_witness:
  "omp_before (fst (ScopedOmpSetter_ctor 3 world0)) = 8
   \<and> omp_get_max_threads (snd (ScopedOmpSetter_ctor 3 world0)) = 3
   \<and> omp_get_max_threads
        (ScopedOmpSetter_dtor (fst (ScopedOmpSetter_ctor 3 world0))
           (omp_set_num_threads 5 (snd (ScopedOmpSetter_ctor 3 world0)))) = 8
   \<and> omp_before (fst (ScopedOmpSetter_ctor 0 (InitGlobalBuildThreadPool 4 world0))) = 4
   \<and> omp_get_max_threads (snd (ScopedOmpSetter_ctor 0 (InitGlobalBuildThreadPool 4 world0))) = 4"
proof -
  let ?w1 = "InitGlobalBuildThreadPool 4 world0"
  let ?g0 = "fst (ScopedOmpSetter_ctor 3 world0)"
  let ?g1 = "fst (ScopedOmpSetter_ctor 0 ?w1)"
  note a = ScopedOmpSetter_prior_and_restore
    [of 3 world0 "omp_set_num_threads 5 (snd (ScopedOmpSetter_ctor 3 world0))"]
  note b = ScopedOmpSetter_prior_and_restore [of 0 ?w1 ?w1]
  have p0: "(case build_pool world0 of None \<Rightarrow> omp_get_max_threads world0
      | Some a \<Rightarrow> ThreadPool_size (heap world0 ! a)) = 8"
    by (simp add: world0_def omp_get_max_threads_def)
  have p1: "(case build_pool ?w1 of None \<Rightarrow> omp_get_max_threads ?w1
      | Some a \<Rightarrow> ThreadPool_size (heap ?w1 ! a)) = 4"
    by (simp add: InitGlobalBuildThreadPool_4_world0 ThreadPool_size_ctor)
  have pos: "(0 :: int32_t) <s 8" "(0 :: int32_t) <s 4" "(0 :: int32_t) <s 3"
    and zero: "(0 :: int32_t) \<le>s 0"
    by (simp_all add: word_sless_alt)
  from a [THEN conjunct1] p0 have b0: "omp_before ?g0 = 8" by (rule trans)
  from b [THEN conjunct1] p1 have b1: "omp_before ?g1 = 4" by (rule trans)
  from a [THEN conjunct2, THEN conjunct2, THEN conjunct1] pos
  have r0: "omp_get_max_threads (snd (ScopedOmpSetter_ctor 3 world0)) = 3"
    by simp
  from a [THEN conjunct2, THEN conjunct2, THEN conjunct2, THEN conjunct2] pos
  have r1: "omp_get_max_threads (ScopedOmpSetter_dtor ?g0
             (omp_set_num_threads 5 (snd (ScopedOmpSetter_ctor 3 world0)))) = 8"
    by (simp add: b0)
  from b [THEN conjunct2, THEN conjunct2, THEN conjunct2, THEN conjunct1] pos zero
  have r2: "omp_get_max_threads (snd (ScopedOmpSetter_ctor 0 ?w1)) = 4"
    by (simp add: b1)
  from b0 b1 r0 r1 r2 show ?thesis by blast
qed

text \<open>
  C10, as the code has it. Let the build pool exist with a \<^verbatim>\<open>size()\<close> that differs
  from the nested runtime's current budget. A guard constructed with \<open>n \<le> 0\<close>
  requests the build pool's size, and the destructor of a guard constructed with
  any \<open>n\<close> requests the build pool's size as it was at construction, in whatever
  state \<open>w'\<close> the scope ends. When that size is positive (a pool of fewer than
  \<open>2\<^sup>3\<^sup>1\<close> threads), the budget after construction with \<open>n \<le> 0\<close> and the budget
  after scope exit are the build pool's size, which is not the budget that was
  current before the guard was constructed. What budget a request that is not
  positive yields is left to the nested runtime.
\<close>

theorem ScopedOmpSetter_build_pool_size:
  assumes "build_pool w = Some a"
    and "ThreadPool_size (heap w ! a) \<noteq> omp_get_max_threads w"
  shows "(n \<le>s 0 \<longrightarrow>
            snd (ScopedOmpSetter_ctor n w) = omp_set_num_threads (ThreadPool_size (heap w ! a)) w)
       \<and> ScopedOmpSetter_dtor (fst (ScopedOmpSetter_ctor n w)) w'
           = omp_set_num_threads (ThreadPool_size (heap w ! a)) w'
       \<and> (0 <s ThreadPool_size (heap w ! a) \<longrightarrow>
            (n \<le>s 0 \<longrightarrow>
               omp_get_max_threads (snd (ScopedOmpSetter_ctor n w)) = ThreadPool_size (heap w ! a))
            \<and> omp_get_max_threads (ScopedOmpSetter_dtor (fst (ScopedOmpSetter_ctor n w)) w')
                = ThreadPool_size (heap w ! a)
            \<and> omp_get_max_threads (ScopedOmpSetter_dtor (fst (ScopedOmpSetter_ctor n w)) w')
                \<noteq> omp_get_max_threads w)"
  using assms
  by (simp add: ScopedOmpSetter_ctor_def ScopedOmpSetter_dtor_def Let_def
        omp_set_num_threads_def omp_get_max_threads_def)

text \<open>
  The theorem at a build pool of 4 threads under a current budget of 8: the
  budget is 4 inside the scope of a guard constructed with 0, and 4 after it.
\<close>

theorem ScopedOmpSetter_build_pool_size_witness:
  "build_pool (InitGlobalBuildThreadPool 4 world0) = Some 0
   \<and> ThreadPool_size (heap (InitGlobalBuildThreadPool 4 world0) ! 0) = 4
   \<and> omp_get_max_threads (InitGlobalBuildThreadPool 4 world0) = 8
   \<and> omp_get_max_threads (snd (ScopedOmpSetter_ctor 0 (InitGlobalBuildThreadPool 4 world0))) = 4
   \<and> omp_get_max_threads
        (ScopedOmpSetter_dtor (fst (ScopedOmpSetter_ctor 0 (InitGlobalBuildThreadPool 4 world0)))
           (snd (ScopedOmpSetter_ctor 0 (InitGlobalBuildThreadPool 4 world0)))) = 4"
proof -
  let ?w1 = "InitGlobalBuildThreadPool 4 world0"
  let ?g = "fst (ScopedOmpSetter_ctor 0 ?w1)"
  let ?w2 = "snd (ScopedOmpSetter_ctor 0 ?w1)"
  have bp: "build_pool ?w1 = Some 0"
    and sz: "ThreadPool_size (heap ?w1 ! 0) = 4"
    and cur: "omp_get_max_threads ?w1 = 8"
    by (simp_all add: InitGlobalBuildThreadPool_4_world0 ThreadPool_size_ctor
          omp_get_max_threads_def)
  have ne: "ThreadPool_size (heap ?w1 ! 0) \<noteq> omp_get_max_threads ?w1"
    by (simp add: sz cur)
  have pos: "0 <s ThreadPool_size (heap ?w1 ! 0)" and le: "(0 :: int32_t) \<le>s 0"
    by (simp_all add: sz word_sless_alt)
  note t = ScopedOmpSetter_build_pool_size [OF bp ne, of 0 ?w2]
  from t [THEN conjunct2, THEN conjunct2] pos le
  have "omp_get_max_threads ?w2 = ThreadPool_size (heap ?w1 ! 0)
      \<and> omp_get_max_threads (ScopedOmpSetter_dtor ?g ?w2) = ThreadPool_size (heap ?w1 ! 0)"
    by simp
  with bp sz cur show ?thesis by simp
qed

lemma SetGlobalBuildThreadPoolSize_huge_world0:
  "SetGlobalBuildThreadPoolSize 2147483648 (InitGlobalBuildThreadPool 4 world0) =
     \<lparr>heap = [\<lparr>pool = \<lparr>numThreads = 2147483648, queue_capacity = 64,
                         threadFactory = ''knowhere_build''\<rparr>\<rparr>],
      build_pool = Some 0, search_pool = None,
      nthreads_var = 8, omp_nonpositive = (\<lambda>_. 1),
      log = [LOG_KNOWHERE_INFO ''Init global build thread pool with size '' 4,
             LOG_KNOWHERE_INFO ''Global build thread pool size has already been set to ''
               (- 2147483648)]\<rparr>"
  by (simp add: InitGlobalBuildThreadPool_4_world0 SetGlobalBuildThreadPoolSize_set
        SetNumThreads_def setNumThreads_def ThreadPool_ctor_def ThreadPool_size_def
        kTaskQueueFactor_def)

text \<open>
  C10 as stated fails: the build pool is resized to \<open>2\<^sup>3\<^sup>1\<close> threads, so that
  \<^verbatim>\<open>size()\<close> is \<open>- 2\<^sup>3\<^sup>1\<close> and differs from the current budget of 8. A guard
  constructed with 0 requests that size, the nested runtime answers the request
  with a budget of 1, and the budget is 1 again after scope exit: not the build
  pool's size.
\<close>

theorem ScopedOmpSetter_huge_pool_counterexample:
  "build_pool (SetGlobalBuildThreadPoolSize 2147483648 (InitGlobalBuildThreadPool 4 world0))
     = Some 0
   \<and> sint (ThreadPool_size
        (heap (SetGlobalBuildThreadPoolSize 2147483648 (InitGlobalBuildThreadPool 4 world0)) ! 0))
       = - 2147483648
   \<and> sint (omp_get_max_threads
        (SetGlobalBuildThreadPoolSize 2147483648 (InitGlobalBuildThreadPool 4 world0))) = 8
   \<and> sint (omp_get_max_threads (snd (ScopedOmpSetter_ctor 0
        (SetGlobalBuildThreadPoolSize 2147483648 (InitGlobalBuildThreadPool 4 world0))))) = 1
   \<and> sint (omp_get_max_threads
        (ScopedOmpSetter_dtor
           (fst (ScopedOmpSetter_ctor 0
              (SetGlobalBuildThreadPoolSize 2147483648 (InitGlobalBuildThreadPool 4 world0))))
           (snd (ScopedOmpSetter_ctor 0
              (SetGlobalBuildThreadPoolSize 2147483648 (InitGlobalBuildThreadPool 4 world0))))))
       = 1"
  by (simp add: SetGlobalBuildThreadPoolSize_huge_world0 ScopedOmpSetter_ctor_def ScopedOmpSetter_dtor_def Let_def
        omp_set_num_threads_def omp_get_max_threads_def ThreadPool_size_def word_sless_alt)

end
